theory Spec2Isabelle
  imports Main "HOL-Library.Sublist" "HOL-Library.Word"
begin

section \<open>Data model (internal/models)\<close>

text \<open>
  The Go structs of package \<open>models\<close> as records. A Go \<open>string\<close> is a \<open>string\<close>
  whose zero value \<open>''''\<close> is what \<open>encoding/json\<close> leaves in a field whose key is
  missing; a pointer field (\<open>*Account\<close>, \<open>*Group\<close>, \<open>*Context\<close>) is an \<open>option\<close>, with
  \<open>None\<close> for \<open>nil\<close>. Field names carry the struct's name as a prefix, since record
  fields share one name space. The \<open>map[string]interface{}\<close> payloads (\<open>Metadata\<close>,
  \<open>Result\<close>, \<open>Definition\<close>, \<open>Extensions\<close>, \<open>Display\<close>) are read by no decision of the
  proxy and are left out.
\<close>

record Account =
  account_HomePage :: string
  account_Name :: string

record Actor =
  actor_ObjectType :: string
  actor_Name :: string
  actor_Mbox :: string
  actor_MboxSHA1 :: string
  actor_OpenID :: string
  actor_Account :: "Account option"

record Group =
  group_ObjectType :: string
  group_Name :: string
  group_Member :: "Actor list"

record Verb =
  verb_ID :: string

record Object =
  object_ObjectType :: string
  object_ID :: string

record Context =
  context_Registration :: string
  context_Instructor :: "Actor option"
  context_Team :: "Group option"

record Statement =
  statement_ID :: string
  statement_Actor :: Actor
  statement_Verb :: Verb
  statement_Object :: Object
  statement_Context :: "Context option"

record Permissions =
  permissions_Write :: string
  permissions_Read :: string

record TokenRequest =
  request_Actor :: Actor
  request_Registration :: string
  request_ActivityID :: string
  request_CourseID :: string
  request_Permissions :: Permissions
  request_Group :: "Group option"

text \<open>
  \<open>Claims\<close> embeds \<open>jwt.RegisteredClaims\<close>; the four registered fields the issuer
  sets are kept, the two \<open>NumericDate\<close>s as Unix seconds.
\<close>

record Claims =
  claims_TenantID :: string
  claims_Actor :: Actor
  claims_Registration :: string
  claims_ActivityID :: string
  claims_CourseID :: string
  claims_Permissions :: Permissions
  claims_Group :: "Group option"
  claims_ExpiresAt :: int
  claims_IssuedAt :: int
  claims_Issuer :: string
  claims_Subject :: string

text \<open>
  \<open>store.TenantConfig\<close>. \<open>LMSAPIKeys\<close> is a \<open>map[string]bool\<close> read with default
  \<open>false\<close>; \<open>JWTTTLSeconds\<close> is a Go \<open>int\<close>, 64 bits wide on the 64-bit Linux target
  the binary is built for.
\<close>

record TenantConfig =
  tenant_TenantID :: string
  tenant_Hosts :: "string list"
  tenant_LRSEndpoint :: string
  tenant_LRSUsername :: string
  tenant_LRSPassword :: string
  tenant_JWTSecret :: string
  tenant_JWTTTLSeconds :: "64 word"
  tenant_LMSAPIKeys :: "string \<Rightarrow> bool"
  tenant_PermissionPolicy :: string

subsection \<open>Actor equality and group membership\<close>

text \<open>\<open>func (a *Actor) Equals(other Actor) bool\<close>: four guarded returns, then \<open>false\<close>.\<close>

definition Equals :: "Actor \<Rightarrow> Actor \<Rightarrow> bool" where
  "Equals a other =
     (if actor_Mbox a \<noteq> '''' \<and> actor_Mbox other \<noteq> '''' then
        actor_Mbox a = actor_Mbox other
      else if actor_MboxSHA1 a \<noteq> '''' \<and> actor_MboxSHA1 other \<noteq> '''' then
        actor_MboxSHA1 a = actor_MboxSHA1 other
      else if actor_OpenID a \<noteq> '''' \<and> actor_OpenID other \<noteq> '''' then
        actor_OpenID a = actor_OpenID other
      else
        (case (actor_Account a, actor_Account other) of
           (Some x, Some y) \<Rightarrow>
             account_HomePage x = account_HomePage y \<and> account_Name x = account_Name y
         | _ \<Rightarrow> False))"

text \<open>\<open>func (g *Group) IsMember(actor Actor) bool\<close>: the loop over \<open>g.Member\<close>.\<close>

fun IsMember_loop :: "Actor list \<Rightarrow> Actor \<Rightarrow> bool" where
  "IsMember_loop [] actor = False"
| "IsMember_loop (member # rest) actor =
     (if Equals member actor then True else IsMember_loop rest actor)"

definition IsMember :: "Group \<Rightarrow> Actor \<Rightarrow> bool" where
  "IsMember g actor = IsMember_loop (group_Member g) actor"

subsection \<open>Actor equality as the specification words it\<close>

text \<open>
  The specification's sentence, read on its own: the identifiers are tried in the order
  mbox, mbox\_sha1, openid, account; the first one populated on both sides decides, by
  matching; when none is populated on both sides the actors are unequal.
\<close>

datatype ident = IdMbox | IdMboxSHA1 | IdOpenID | IdAccount

definition identifier_order :: "ident list" where
  "identifier_order = [IdMbox, IdMboxSHA1, IdOpenID, IdAccount]"

fun populated :: "ident \<Rightarrow> Actor \<Rightarrow> bool" where
  "populated IdMbox a = (actor_Mbox a \<noteq> '''')"
| "populated IdMboxSHA1 a = (actor_MboxSHA1 a \<noteq> '''')"
| "populated IdOpenID a = (actor_OpenID a \<noteq> '''')"
| "populated IdAccount a = (actor_Account a \<noteq> None)"

fun matches :: "ident \<Rightarrow> Actor \<Rightarrow> Actor \<Rightarrow> bool" where
  "matches IdMbox a b = (actor_Mbox a = actor_Mbox b)"
| "matches IdMboxSHA1 a b = (actor_MboxSHA1 a = actor_MboxSHA1 b)"
| "matches IdOpenID a b = (actor_OpenID a = actor_OpenID b)"
| "matches IdAccount a b =
     (map_option account_HomePage (actor_Account a) = map_option account_HomePage (actor_Account b)
      \<and> map_option account_Name (actor_Account a) = map_option account_Name (actor_Account b))"

definition spec_actor_equal :: "Actor \<Rightarrow> Actor \<Rightarrow> bool" where
  "spec_actor_equal a b =
     (case find (\<lambda>k. populated k a \<and> populated k b) identifier_order of
        None \<Rightarrow> False
      | Some k \<Rightarrow> matches k a b)"

section \<open>Permission evaluator (internal/validator)\<close>

text \<open>
  A Go \<open>error\<close> result is a \<open>verror option\<close>: \<open>None\<close> is \<open>nil\<close> (admit), \<open>Some e\<close> is the
  error built by \<open>fmt.Errorf\<close> (deny). Each constructor stands for one format string of the
  source and carries the values formatted into it:
  \<^item> \<open>WritePermissionDenied\<close>: "write permission denied";
  \<^item> \<open>UnsupportedWriteScope scope\<close>: "unsupported write permission scope: (scope)";
  \<^item> \<open>ReadPermissionDenied\<close>: "read permission denied";
  \<^item> \<open>UnsupportedReadScope scope\<close>: "unsupported read permission scope: (scope)";
  \<^item> \<open>ActorMismatch op expected got\<close>: "(op) denied: actor mismatch (expected .., got ..)";
  \<^item> \<open>ActivityMismatch op expected got\<close>: "(op) denied: activity mismatch (expected .., got ..)";
  \<^item> \<open>RegistrationMismatch op expected got\<close>:
    "(op) denied: registration mismatch (expected .., got ..)";
  \<^item> \<open>GroupActorRequired\<close>: "write denied: group actor required";
  \<^item> \<open>GroupMismatch\<close>: "write denied: group mismatch";
  \<^item> \<open>ActorNotMember\<close>: "write denied: actor not a member of group";
  \<^item> \<open>GroupActivityMismatch\<close>: "write denied: activity mismatch";
  \<^item> \<open>GroupRegistrationMismatch\<close>: "write denied: registration mismatch";
  \<^item> \<open>ReadAgentMismatch\<close>, \<open>ReadActivityMismatch\<close>, \<open>ReadRegistrationMismatch\<close>:
    "read denied: agent mismatch", "read denied: activity mismatch",
    "read denied: registration mismatch";
  \<^item> \<open>StateAgentMismatch\<close>, \<open>StateActivityMismatch\<close>, \<open>StateRegistrationMismatch\<close>:
    "state access denied: agent mismatch", "state access denied: activity mismatch",
    "state access denied: registration mismatch";
  \<^item> \<open>InvalidPermissionScope scope\<close>: "invalid permission scope: (scope)" (package models).
\<close>

datatype verror =
    WritePermissionDenied
  | UnsupportedWriteScope string
  | ReadPermissionDenied
  | UnsupportedReadScope string
  | ActorMismatch string Actor Actor
  | ActivityMismatch string string string
  | RegistrationMismatch string string "Context option"
  | GroupActorRequired
  | GroupMismatch
  | ActorNotMember
  | GroupActivityMismatch
  | GroupRegistrationMismatch
  | ReadAgentMismatch
  | ReadActivityMismatch
  | ReadRegistrationMismatch
  | StateAgentMismatch
  | StateActivityMismatch
  | StateRegistrationMismatch
  | InvalidPermissionScope string

record PermissionValidator =
  policy :: string

definition NewPermissionValidator :: "string \<Rightarrow> PermissionValidator" where
  "NewPermissionValidator p = \<lparr>policy = p\<rparr>"

text \<open>\<open>strings.Contains(s, substr)\<close>: \<open>substr\<close> starts at some position of \<open>s\<close>.\<close>

fun Contains :: "string \<Rightarrow> string \<Rightarrow> bool" where
  "Contains [] substr = (substr = [])"
| "Contains (c # s) substr = (prefix substr (c # s) \<or> Contains s substr)"

text \<open>
  A \<open>map[string]string\<close> is a partial map; indexing it with a missing key gives the
  empty string, the zero value.
\<close>

type_synonym query = "string \<rightharpoonup> string"

definition index :: "query \<Rightarrow> string \<Rightarrow> string" where
  "index q k = (case q k of None \<Rightarrow> '''' | Some v \<Rightarrow> v)"

definition validateActorActivityRegistration ::
  "PermissionValidator \<Rightarrow> Claims \<Rightarrow> Statement \<Rightarrow> string \<Rightarrow> verror option" where
  "validateActorActivityRegistration v claims stmt op =
     (if \<not> Equals (claims_Actor claims) (statement_Actor stmt) then
        Some (ActorMismatch op (claims_Actor claims) (statement_Actor stmt))
      else if object_ID (statement_Object stmt) \<noteq> claims_ActivityID claims then
        Some (ActivityMismatch op (claims_ActivityID claims) (object_ID (statement_Object stmt)))
      else if (case statement_Context stmt of
                 None \<Rightarrow> True
               | Some ctx \<Rightarrow> context_Registration ctx \<noteq> claims_Registration claims) then
        Some (RegistrationMismatch op (claims_Registration claims) (statement_Context stmt))
      else None)"

definition validateGroupActivityRegistration ::
  "PermissionValidator \<Rightarrow> Claims \<Rightarrow> Statement \<Rightarrow> verror option" where
  "validateGroupActivityRegistration v claims stmt =
     (if actor_ObjectType (statement_Actor stmt) \<noteq> ''Group'' then Some GroupActorRequired
      else
        (case claims_Group claims of
           None \<Rightarrow> Some GroupMismatch
         | Some g \<Rightarrow>
             if actor_Name (statement_Actor stmt) \<noteq> group_Name g then Some GroupMismatch
             else if \<not> IsMember g (claims_Actor claims) then Some ActorNotMember
             else if object_ID (statement_Object stmt) \<noteq> claims_ActivityID claims then
               Some GroupActivityMismatch
             else if (case statement_Context stmt of
                        None \<Rightarrow> True
                      | Some ctx \<Rightarrow> context_Registration ctx \<noteq> claims_Registration claims) then
               Some GroupRegistrationMismatch
             else None))"

definition ValidateWrite ::
  "PermissionValidator \<Rightarrow> Claims \<Rightarrow> Statement \<Rightarrow> verror option" where
  "ValidateWrite v claims stmt =
     (let scope = permissions_Write (claims_Permissions claims) in
      if scope = ''false'' then Some WritePermissionDenied
      else if scope = ''actor-activity-registration-scoped'' then
        validateActorActivityRegistration v claims stmt ''write''
      else if scope = ''group-activity-registration-scoped'' then
        validateGroupActivityRegistration v claims stmt
      else Some (UnsupportedWriteScope scope))"

definition validateActorActivityRegistrationRead ::
  "PermissionValidator \<Rightarrow> Claims \<Rightarrow> query \<Rightarrow> verror option" where
  "validateActorActivityRegistrationRead v claims q =
     (let agent = index q ''agent''; activity = index q ''activity'';
          reg = index q ''registration'' in
      if agent \<noteq> '''' \<and> \<not> Contains agent (actor_Mbox (claims_Actor claims))
                     \<and> \<not> Contains agent (actor_OpenID (claims_Actor claims)) then
        Some ReadAgentMismatch
      else if activity \<noteq> '''' \<and> activity \<noteq> claims_ActivityID claims then
        Some ReadActivityMismatch
      else if reg \<noteq> '''' \<and> reg \<noteq> claims_Registration claims then
        Some ReadRegistrationMismatch
      else None)"

definition validateActorCourseRegistrationRead ::
  "PermissionValidator \<Rightarrow> Claims \<Rightarrow> query \<Rightarrow> verror option" where
  "validateActorCourseRegistrationRead v claims q =
     (let agent = index q ''agent''; reg = index q ''registration'' in
      if agent \<noteq> '''' \<and> \<not> Contains agent (actor_Mbox (claims_Actor claims))
                     \<and> \<not> Contains agent (actor_OpenID (claims_Actor claims)) then
        Some ReadAgentMismatch
      else if reg \<noteq> '''' \<and> reg \<noteq> claims_Registration claims then
        Some ReadRegistrationMismatch
      else None)"

definition validateActorActivityAllRegistrationsRead ::
  "PermissionValidator \<Rightarrow> Claims \<Rightarrow> query \<Rightarrow> verror option" where
  "validateActorActivityAllRegistrationsRead v claims q =
     (let agent = index q ''agent''; activity = index q ''activity'' in
      if agent \<noteq> '''' \<and> \<not> Contains agent (actor_Mbox (claims_Actor claims))
                     \<and> \<not> Contains agent (actor_OpenID (claims_Actor claims)) then
        Some ReadAgentMismatch
      else if activity \<noteq> '''' \<and> activity \<noteq> claims_ActivityID claims then
        Some ReadActivityMismatch
      else None)"

definition validateGroupActivityRegistrationRead ::
  "PermissionValidator \<Rightarrow> Claims \<Rightarrow> query \<Rightarrow> verror option" where
  "validateGroupActivityRegistrationRead v claims q =
     (let activity = index q ''activity''; reg = index q ''registration'' in
      if activity \<noteq> '''' \<and> activity \<noteq> claims_ActivityID claims then
        Some ReadActivityMismatch
      else if reg \<noteq> '''' \<and> reg \<noteq> claims_Registration claims then
        Some ReadRegistrationMismatch
      else None)"

definition ValidateRead ::
  "PermissionValidator \<Rightarrow> Claims \<Rightarrow> query \<Rightarrow> verror option" where
  "ValidateRead v claims q =
     (let scope = permissions_Read (claims_Permissions claims) in
      if scope = ''false'' then Some ReadPermissionDenied
      else if scope = ''actor-activity-registration-scoped'' then
        validateActorActivityRegistrationRead v claims q
      else if scope = ''actor-course-registration-scoped'' then
        validateActorCourseRegistrationRead v claims q
      else if scope = ''actor-activity-all-registrations'' then
        validateActorActivityAllRegistrationsRead v claims q
      else if scope = ''group-activity-registration-scoped'' then
        validateGroupActivityRegistrationRead v claims q
      else if policy v = ''permissive'' then None
      else Some (UnsupportedReadScope scope))"

definition ValidateStateAccess ::
  "PermissionValidator \<Rightarrow> Claims \<Rightarrow> string \<Rightarrow> string \<Rightarrow> string \<Rightarrow> verror option" where
  "ValidateStateAccess v claims activityID agent registration =
     (if \<not> Contains agent (actor_Mbox (claims_Actor claims))
         \<and> \<not> Contains agent (actor_OpenID (claims_Actor claims)) then
        Some StateAgentMismatch
      else if permissions_Read (claims_Permissions claims) = ''actor-activity-registration-scoped''
      then
        (if activityID \<noteq> claims_ActivityID claims then Some StateActivityMismatch
         else if registration \<noteq> claims_Registration claims then Some StateRegistrationMismatch
         else None)
      else None)"

text \<open>
  The scope names with a branch of their own in \<open>ValidateWrite\<close> and in \<open>ValidateRead\<close>
  (the test against \<open>''false''\<close> and the \<open>case\<close> labels of the \<open>switch\<close>); every other
  scope reaches \<open>default\<close>.
\<close>

definition write_branches :: "string list" where
  "write_branches =
     [''false'', ''actor-activity-registration-scoped'', ''group-activity-registration-scoped'']"

definition read_branches :: "string list" where
  "read_branches =
     [''false'', ''actor-activity-registration-scoped'', ''actor-course-registration-scoped'',
      ''actor-activity-all-registrations'', ''group-activity-registration-scoped'']"

section \<open>Token verifier (internal/middleware)\<close>

text \<open>
  A middleware either writes an error response with \<open>http.Error\<close> and returns
  (\<open>Reject code msg\<close>) or calls the next handler with the value it put in the request
  context (\<open>Next x\<close>).
\<close>

datatype 'a middleware = Reject nat string | Next 'a

text \<open>\<open>strings.SplitN(s, " ", 2)\<close>: cut at the first space, if there is one.\<close>

definition SplitN :: "string \<Rightarrow> string list" where
  "SplitN s =
     (if CHR '' '' \<in> set s then
        [takeWhile (\<lambda>c. c \<noteq> CHR '' '') s, tl (dropWhile (\<lambda>c. c \<noteq> CHR '' '') s)]
      else [s])"

text \<open>
  What \<open>jwt.ParseWithClaims\<close> returns, with the key function passed to it (which refuses
  every signing method but HMAC): an error (\<open>ParseFailed\<close>: malformed token, wrong
  algorithm, bad signature, expired token, claims that do not decode), or a token with
  its \<open>Valid\<close> flag and its claims. The middleware passes \<open>&models.Claims{}\<close> to the
  library, which decodes into that value and returns it as \<open>token.Claims\<close>: the type
  assertion \<open>token.Claims.(*models.Claims)\<close> that follows always succeeds, so its failure
  branch is no behaviour of the program and the claims of a token are a \<open>Claims\<close>. The
  library is not part of the repository: the middleware is modelled over any such function
  of the token string and the tenant's secret.
\<close>

datatype parse_result = ParseFailed | Token bool Claims

type_synonym parser = "string \<Rightarrow> string \<Rightarrow> parse_result"

text \<open>
  \<open>TenantMiddleware\<close>; \<open>GetByHost\<close> is the tenant store's lookup (\<open>None\<close> when it
  returns an error), \<open>host\<close> is \<open>r.Host\<close>.
\<close>

definition TenantMiddleware ::
  "(string \<Rightarrow> TenantConfig option) \<Rightarrow> string \<Rightarrow> TenantConfig middleware" where
  "TenantMiddleware GetByHost host =
     (case GetByHost host of
        None \<Rightarrow> Reject 404 ''Tenant not found''
      | Some tenant \<Rightarrow> Next tenant)"

text \<open>
  \<open>JWTAuthMiddleware\<close>; \<open>auth\<close> is \<open>r.Header.Get("Authorization")\<close>, the empty string
  when the header is missing.
\<close>

definition JWTAuthMiddleware :: "parser \<Rightarrow> TenantConfig \<Rightarrow> string \<Rightarrow> Claims middleware" where
  "JWTAuthMiddleware ParseWithClaims tenant auth =
     (if auth = '''' then Reject 401 ''Authorization required''
      else
        let parts = SplitN auth in
        if length parts \<noteq> 2 \<or> parts ! 0 \<noteq> ''Bearer'' then
          Reject 401 ''Invalid authorization format''
        else
          (case ParseWithClaims (parts ! 1) (tenant_JWTSecret tenant) of
             ParseFailed \<Rightarrow> Reject 401 ''Invalid token''
           | Token valid claims \<Rightarrow>
               if \<not> valid then Reject 401 ''Invalid token''
               else if claims_TenantID claims \<noteq> tenant_TenantID tenant then
                 Reject 401 ''Invalid token''
               else Next claims))"

section \<open>Handlers (internal/handlers)\<close>

text \<open>
  What a handler does with a request: it answers with \<open>http.Error(w, text, code)\<close>, it
  answers a token request with the JSON of a \<open>TokenResponse\<close> (the token string and the
  expiry, a \<open>time.Time\<close>), or it calls
  \<open>forwardToLRS\<close> with a body (\<open>None\<close> for \<open>nil\<close>), which is the only place where the
  upstream LRS is contacted. The text of an error response is a literal of the source, the
  text of an evaluator error, or \<open>fmt.Sprintf("Statement \%d: \%s", i, err.Error())\<close>.
\<close>

datatype message = Plain string | ErrorText verror | StatementErrorText nat verror

datatype outcome =
    HttpError nat message
  | TokenIssued string int
  | ForwardToLRS "string option"
  | NoRoute

text \<open>
  \<open>models.ValidatePermission\<close>: the keys of the map \<open>validScopes\<close>, all mapped to
  \<open>true\<close>.
\<close>

definition validScopes :: "string list" where
  "validScopes =
     [''actor-activity-registration-scoped'', ''actor-course-registration-scoped'',
      ''actor-activity-all-registrations'', ''actor-cross-course-certification'',
      ''group-activity-registration-scoped'', ''course-aggregate-only'',
      ''course-peer-shared'', ''false'']"

definition ValidatePermission :: "string \<Rightarrow> verror option" where
  "ValidatePermission scope =
     (if scope \<in> set validScopes then None else Some (InvalidPermissionScope scope))"

text \<open>
  Time. A \<open>time.Time\<close> is the number of nanoseconds since the Unix epoch; a
  \<open>time.Duration\<close> is an \<open>int64\<close> of nanoseconds, whose arithmetic wraps. \<open>Add\<close> is
  \<open>Time.Add\<close>, exact on the wall clock. \<open>NewNumericDate\<close> is the JWT library's
  constructor, which truncates to the second: the claim holds Unix seconds.
\<close>

type_synonym Duration = "64 word"

definition Second :: Duration where
  "Second = 1000000000"

definition Add :: "int \<Rightarrow> Duration \<Rightarrow> int" where
  "Add t d = t + sint d"

definition NewNumericDate :: "int \<Rightarrow> int" where
  "NewNumericDate t = t div 1000000000"

text \<open>
  \<open>IssueToken\<close>. Its inputs beside the tenant: the outcome of decoding the request body
  (\<open>None\<close> when \<open>Decode\<close> fails), the two readings of the clock (\<open>time.Now()\<close> is called
  once for the expiry and once for \<open>IssuedAt\<close>), and the signing function
  \<open>token.SignedString\<close> of the JWT library (\<open>None\<close> when it returns an error). The
  lifetime is \<open>time.Duration(tenant.JWTTTLSeconds) * time.Second\<close>, a product of
  \<open>int64\<close>s that wraps around.
\<close>

type_synonym signer = "string \<Rightarrow> Claims \<Rightarrow> string option"

definition IssueToken ::
  "signer \<Rightarrow> int \<Rightarrow> int \<Rightarrow> TenantConfig \<Rightarrow> TokenRequest option \<Rightarrow> outcome" where
  "IssueToken SignedString now1 now2 tenant decoded =
     (case decoded of
        None \<Rightarrow> HttpError 400 (Plain ''Invalid request body'')
      | Some req \<Rightarrow>
          (case ValidatePermission (permissions_Write (request_Permissions req)) of
             Some err \<Rightarrow> HttpError 400 (ErrorText err)
           | None \<Rightarrow>
               (case ValidatePermission (permissions_Read (request_Permissions req)) of
                  Some err \<Rightarrow> HttpError 400 (ErrorText err)
                | None \<Rightarrow>
                    let expiresAt = Add now1 (tenant_JWTTTLSeconds tenant * Second);
                        claims = \<lparr>claims_TenantID = tenant_TenantID tenant,
                                  claims_Actor = request_Actor req,
                                  claims_Registration = request_Registration req,
                                  claims_ActivityID = request_ActivityID req,
                                  claims_CourseID = request_CourseID req,
                                  claims_Permissions = request_Permissions req,
                                  claims_Group = request_Group req,
                                  claims_ExpiresAt = NewNumericDate expiresAt,
                                  claims_IssuedAt = NewNumericDate now2,
                                  claims_Issuer = ''xapi-lrs-auth-proxy'',
                                  claims_Subject = actor_Mbox (request_Actor req)\<rparr>
                    in (case SignedString (tenant_JWTSecret tenant) claims of
                          None \<Rightarrow> HttpError 500 (Plain ''Token generation failed'')
                        | Some tokenString \<Rightarrow> TokenIssued tokenString expiresAt))))"

text \<open>
  \<open>proxyStatementsWrite\<close>. The body is what \<open>io.ReadAll\<close> returned (\<open>None\<close> on error);
  \<open>unmarshal_list\<close> and \<open>unmarshal_one\<close> are \<open>json.Unmarshal\<close> into a \<open>[]Statement\<close> and
  into a \<open>Statement\<close> (\<open>None\<close> on error). The \<open>for i, stmt := range statements\<close> loop is
  \<open>validate_statements\<close>, which returns at the first error with the index it stands at.
\<close>

fun validate_statements ::
  "PermissionValidator \<Rightarrow> Claims \<Rightarrow> nat \<Rightarrow> Statement list \<Rightarrow> (nat \<times> verror) option" where
  "validate_statements v claims i [] = None"
| "validate_statements v claims i (stmt # rest) =
     (case ValidateWrite v claims stmt of
        Some err \<Rightarrow> Some (i, err)
      | None \<Rightarrow> validate_statements v claims (Suc i) rest)"

definition parse_statements ::
  "(string \<Rightarrow> Statement list option) \<Rightarrow> (string \<Rightarrow> Statement option) \<Rightarrow> string
     \<Rightarrow> Statement list option" where
  "parse_statements unmarshal_list unmarshal_one body =
     (case unmarshal_list body of
        Some statements \<Rightarrow> Some statements
      | None \<Rightarrow>
          (case unmarshal_one body of
             None \<Rightarrow> None
           | Some stmt \<Rightarrow> Some [stmt]))"

definition proxyStatementsWrite ::
  "(string \<Rightarrow> Statement list option) \<Rightarrow> (string \<Rightarrow> Statement option) \<Rightarrow>
     TenantConfig \<Rightarrow> Claims \<Rightarrow> PermissionValidator \<Rightarrow> string option \<Rightarrow> outcome" where
  "proxyStatementsWrite unmarshal_list unmarshal_one tenant claims v read_body =
     (case read_body of
        None \<Rightarrow> HttpError 400 (Plain ''Failed to read body'')
      | Some body \<Rightarrow>
          (case parse_statements unmarshal_list unmarshal_one body of
             None \<Rightarrow> HttpError 400 (Plain ''Invalid statement format'')
           | Some statements \<Rightarrow>
               (case validate_statements v claims 0 statements of
                  Some (i, err) \<Rightarrow> HttpError 403 (StatementErrorText i err)
                | None \<Rightarrow> ForwardToLRS (Some body))))"

text \<open>
  \<open>ProxyState\<close> and \<open>ProxyAgentProfile\<close>. \<open>method\<close> is \<open>r.Method\<close>, \<open>activityId\<close>,
  \<open>agent\<close> and \<open>registration\<close> are the values \<open>r.URL.Query().Get\<close> returns, and
  \<open>read_body\<close> is the result of \<open>io.ReadAll\<close>, which the handler asks for on POST and PUT
  only.
\<close>

definition ProxyState ::
  "TenantConfig \<Rightarrow> Claims \<Rightarrow> string \<Rightarrow> string \<Rightarrow> string \<Rightarrow> string \<Rightarrow> string option
     \<Rightarrow> outcome" where
  "ProxyState tenant claims method activityID agent registration read_body =
     (let v = NewPermissionValidator (tenant_PermissionPolicy tenant) in
      case ValidateStateAccess v claims activityID agent registration of
        Some err \<Rightarrow> HttpError 403 (ErrorText err)
      | None \<Rightarrow>
          if method = ''POST'' \<or> method = ''PUT'' then
            (case read_body of
               None \<Rightarrow> HttpError 400 (Plain ''Failed to read body'')
             | Some body \<Rightarrow> ForwardToLRS (Some body))
          else ForwardToLRS None)"

definition ProxyAgentProfile ::
  "TenantConfig \<Rightarrow> Claims \<Rightarrow> string \<Rightarrow> string \<Rightarrow> string option \<Rightarrow> outcome" where
  "ProxyAgentProfile tenant claims method agent read_body =
     (if method = ''POST'' \<or> method = ''PUT'' then
        (case read_body of
           None \<Rightarrow> HttpError 400 (Plain ''Failed to read body'')
         | Some body \<Rightarrow> ForwardToLRS (Some body))
      else ForwardToLRS None)"

text \<open>
  The route \<open>/xapi/agents/profile\<close> of \<open>main\<close>. The router dispatches a request to it
  only when its method is one of those the route is registered with,
  \<open>Methods("POST", "PUT", "GET", "DELETE")\<close>; any other method is answered by the router
  itself (\<open>NoRoute\<close>) and runs neither a middleware nor the handler. A dispatched request
  passes \<open>TenantMiddleware\<close> and \<open>JWTAuthMiddleware\<close>, in this order, before
  \<open>ProxyAgentProfile\<close>; a rejection of a middleware is the response.
\<close>

definition agents_profile_methods :: "string list" where
  "agents_profile_methods = [''POST'', ''PUT'', ''GET'', ''DELETE'']"

definition agents_profile_route ::
  "(string \<Rightarrow> TenantConfig option) \<Rightarrow> parser \<Rightarrow> string \<Rightarrow> string \<Rightarrow> string \<Rightarrow> string
     \<Rightarrow> string option \<Rightarrow> outcome" where
  "agents_profile_route GetByHost ParseWithClaims host auth method agent read_body =
     (if method \<notin> set agents_profile_methods then NoRoute
      else
        (case TenantMiddleware GetByHost host of
           Reject code msg \<Rightarrow> HttpError code (Plain msg)
         | Next tenant \<Rightarrow>
             (case JWTAuthMiddleware ParseWithClaims tenant auth of
                Reject code msg \<Rightarrow> HttpError code (Plain msg)
              | Next claims \<Rightarrow> ProxyAgentProfile tenant claims method agent read_body)))"

section \<open>Concrete inputs\<close>

text \<open>
  The values of the specification's scenario S1: the learner \<open>mailto:a@x\<close>, registration
  \<open>R1\<close>, activity \<open>https://ex/a\<close>, both scopes \<open>actor-activity-registration-scoped\<close>, a
  token lifetime of 3600 seconds; and a second learner \<open>mailto:b@x\<close>.
\<close>

definition learner_a :: Actor where
  "learner_a = \<lparr>actor_ObjectType = ''Agent'', actor_Name = '''', actor_Mbox = ''mailto:a@x'',
                 actor_MboxSHA1 = '''', actor_OpenID = '''', actor_Account = None\<rparr>"

definition learner_b :: Actor where
  "learner_b = \<lparr>actor_ObjectType = ''Agent'', actor_Name = '''', actor_Mbox = ''mailto:b@x'',
                 actor_MboxSHA1 = '''', actor_OpenID = '''', actor_Account = None\<rparr>"

definition nobody :: Actor where
  "nobody = \<lparr>actor_ObjectType = '''', actor_Name = '''', actor_Mbox = '''',
              actor_MboxSHA1 = '''', actor_OpenID = '''', actor_Account = None\<rparr>"

definition default_scopes :: Permissions where
  "default_scopes = \<lparr>permissions_Write = ''actor-activity-registration-scoped'',
                      permissions_Read = ''actor-activity-registration-scoped''\<rparr>"

definition tenant_A :: TenantConfig where
  "tenant_A = \<lparr>tenant_TenantID = ''A'', tenant_Hosts = [''*''],
                tenant_LRSEndpoint = ''https://lrs.example.com/xapi'',
                tenant_LRSUsername = ''u'', tenant_LRSPassword = ''p'',
                tenant_JWTSecret = ''secret'', tenant_JWTTTLSeconds = 3600,
                tenant_LMSAPIKeys = (\<lambda>k. k = ''key''),
                tenant_PermissionPolicy = ''strict''\<rparr>"

definition request_S1 :: TokenRequest where
  "request_S1 = \<lparr>request_Actor = learner_a, request_Registration = ''R1'',
                  request_ActivityID = ''https://ex/a'', request_CourseID = '''',
                  request_Permissions = default_scopes, request_Group = None\<rparr>"

definition claims_S1 :: Claims where
  "claims_S1 = \<lparr>claims_TenantID = ''A'', claims_Actor = learner_a,
                 claims_Registration = ''R1'', claims_ActivityID = ''https://ex/a'',
                 claims_CourseID = '''', claims_Permissions = default_scopes,
                 claims_Group = None, claims_ExpiresAt = 3600, claims_IssuedAt = 0,
                 claims_Issuer = ''xapi-lrs-auth-proxy'', claims_Subject = ''mailto:a@x''\<rparr>"

definition statement_S1 :: Statement where
  "statement_S1 = \<lparr>statement_ID = '''', statement_Actor = learner_a,
                    statement_Verb = \<lparr>verb_ID = ''v''\<rparr>,
                    statement_Object = \<lparr>object_ObjectType = '''', object_ID = ''https://ex/a''\<rparr>,
                    statement_Context = Some \<lparr>context_Registration = ''R1'',
                                               context_Instructor = None,
                                               context_Team = None\<rparr>\<rparr>"

text \<open>A context object that is present and has no \<open>registration\<close> key.\<close>

definition context_without_registration :: Context where
  "context_without_registration =
     \<lparr>context_Registration = '''', context_Instructor = None, context_Team = None\<rparr>"

text \<open>
  A token request with nothing in it but two valid scopes: empty actor, registration and
  activity, and a group that is not a \<open>Group\<close> and has no member.
\<close>

definition request_blank :: TokenRequest where
  "request_blank = \<lparr>request_Actor = nobody, request_Registration = '''',
                     request_ActivityID = '''', request_CourseID = '''',
                     request_Permissions = default_scopes,
                     request_Group = Some \<lparr>group_ObjectType = '''', group_Name = '''',
                                           group_Member = []\<rparr>\<rparr>"

text \<open>
  The learner \<open>mailto:a@x\<close> with an openid as well, and the claims of scenario S1 for
  this actor.
\<close>

definition learner_a_openid :: Actor where
  "learner_a_openid = learner_a\<lparr>actor_OpenID := ''https://id.ex/a''\<rparr>"

definition claims_openid :: Claims where
  "claims_openid = claims_S1\<lparr>claims_Actor := learner_a_openid\<rparr>"

text \<open>
  Stand-ins for the JWT library and the tenant store in the concrete runs: a signer that
  always succeeds, a parser that accepts the token string \<open>tok\<close> as the token of
  \<open>claims_S1\<close> and \<open>tok2\<close> as the token of \<open>claims_openid\<close>, and the single-tenant
  store of \<open>tenant_A\<close>, which returns it for every host.
\<close>

definition sign_ok :: signer where
  "sign_ok secret claims = Some ''tok''"

definition parse_S1 :: parser where
  "parse_S1 tokenString secret =
     (if tokenString = ''tok'' then Token True claims_S1
      else if tokenString = ''tok2'' then Token True claims_openid
      else ParseFailed)"

definition store_A :: "string \<Rightarrow> TenantConfig option" where
  "store_A host = Some tenant_A"

text \<open>
  Stand-ins for \<open>json.Unmarshal\<close> in the concrete runs. The body \<open>S1\<close> is the one
  statement of scenario S1 in an array; the body \<open>S8\<close> is the batch of scenario S8, three
  statements of which the one at index 1 names another activity; the body \<open>S2\<close> is not
  an array but the single statement of scenario S2, whose actor is the other learner.
\<close>

definition statement_other_activity :: Statement where
  "statement_other_activity =
     statement_S1\<lparr>statement_Object :=
                    \<lparr>object_ObjectType = '''', object_ID = ''https://ex/other''\<rparr>\<rparr>"

definition statement_other_actor :: Statement where
  "statement_other_actor = statement_S1\<lparr>statement_Actor := learner_b\<rparr>"

definition unmarshal_list_example :: "string \<Rightarrow> Statement list option" where
  "unmarshal_list_example body =
     (if body = ''S1'' then Some [statement_S1]
      else if body = ''S8'' then Some [statement_S1, statement_other_activity, statement_S1]
      else None)"

definition unmarshal_one_example :: "string \<Rightarrow> Statement option" where
  "unmarshal_one_example body =
     (if body = ''S2'' then Some statement_other_actor else None)"

section \<open>Actor equality\<close>

lemma Equals_sym: "Equals a b = Equals b a"
  by (auto simp: Equals_def split: option.splits)

text \<open>
  C9. For every pair of actors, \<open>Equals\<close> holds exactly when the first identifier
  populated on both sides, in the order mbox, mbox\_sha1, openid, account, matches (for
  account: home page and name both equal); with no identifier populated on both sides the
  actors are unequal.
\<close>

theorem Equals_first_populated_pair:
  "Equals a b = spec_actor_equal a b \<and>
   ((\<forall>k \<in> set identifier_order. \<not> (populated k a \<and> populated k b)) \<longrightarrow> \<not> Equals a b)"
  by (auto simp: Equals_def spec_actor_equal_def identifier_order_def split: option.splits)

theorem Equals_first_populated_pair_witness:
  "Equals learner_a learner_a \<and> \<not> Equals learner_a learner_b \<and> \<not> Equals nobody learner_a"
  using Equals_first_populated_pair [of learner_a learner_a]
    Equals_first_populated_pair [of learner_a learner_b]
    Equals_first_populated_pair [of nobody learner_a]
  by (simp add: spec_actor_equal_def learner_a_def learner_b_def nobody_def identifier_order_def)

section \<open>Default isolation on write\<close>

text \<open>
  C1, as the code has it. Under the write scope \<open>actor-activity-registration-scoped\<close>,
  for every claims \<open>C\<close> and statement \<open>s\<close>, \<open>ValidateWrite\<close> admits \<open>s\<close> if and only if
  the statement's actor equals the claims' actor under actor equality, the object id equals
  the claims' activity id, and the context is present with a registration equal to the
  claims' registration. In particular a statement with no context is denied, and a
  statement whose context has no registration (the empty string) is denied whenever the
  claims' registration is not empty.
\<close>

theorem ValidateWrite_default_isolation:
  assumes "permissions_Write (claims_Permissions C) = ''actor-activity-registration-scoped''"
  shows "((ValidateWrite v C s = None) \<longleftrightarrow>
            (Equals (statement_Actor s) (claims_Actor C)
             \<and> object_ID (statement_Object s) = claims_ActivityID C
             \<and> (\<exists>ctx. statement_Context s = Some ctx
                      \<and> context_Registration ctx = claims_Registration C)))
         \<and> (statement_Context s = None \<longrightarrow> ValidateWrite v C s \<noteq> None)
         \<and> (\<forall>ctx. statement_Context s = Some ctx \<and> context_Registration ctx = ''''
                  \<and> claims_Registration C \<noteq> '''' \<longrightarrow> ValidateWrite v C s \<noteq> None)"
  using assms
  by (auto simp: ValidateWrite_def validateActorActivityRegistration_def
      Equals_sym [of "claims_Actor C"] split: option.splits)

theorem ValidateWrite_default_isolation_witness:
  "permissions_Write (claims_Permissions claims_S1) = ''actor-activity-registration-scoped''
   \<and> ValidateWrite (NewPermissionValidator ''strict'') claims_S1 statement_S1 = None
   \<and> ValidateWrite (NewPermissionValidator ''strict'') claims_S1
        (statement_S1\<lparr>statement_Context := None\<rparr>) \<noteq> None
   \<and> ValidateWrite (NewPermissionValidator ''strict'') claims_S1
        (statement_S1\<lparr>statement_Context := Some context_without_registration\<rparr>) \<noteq> None"
proof -
  have h: "permissions_Write (claims_Permissions claims_S1)
             = ''actor-activity-registration-scoped''"
    by (simp add: claims_S1_def default_scopes_def)
  show ?thesis
    using h
      ValidateWrite_default_isolation [OF h, of "NewPermissionValidator ''strict''" statement_S1]
      ValidateWrite_default_isolation [OF h, of "NewPermissionValidator ''strict''"
        "statement_S1\<lparr>statement_Context := None\<rparr>"]
      ValidateWrite_default_isolation [OF h, of "NewPermissionValidator ''strict''"
        "statement_S1\<lparr>statement_Context := Some context_without_registration\<rparr>"]
    by (simp add: claims_S1_def statement_S1_def learner_a_def Equals_def
        context_without_registration_def)
qed

text \<open>
  The claim as written also denies every statement whose context has no registration.
  A token whose own registration is empty (the issuer mints one) admits such a statement:
  the two empty strings are equal.
\<close>

theorem ValidateWrite_absent_registration_admitted:
  "permissions_Write (claims_Permissions (claims_S1\<lparr>claims_Registration := ''''\<rparr>))
     = ''actor-activity-registration-scoped''
   \<and> context_Registration context_without_registration = ''''
   \<and> ValidateWrite (NewPermissionValidator ''strict'') (claims_S1\<lparr>claims_Registration := ''''\<rparr>)
        (statement_S1\<lparr>statement_Context := Some context_without_registration\<rparr>) = None"
  by (simp add: ValidateWrite_def validateActorActivityRegistration_def claims_S1_def
      statement_S1_def learner_a_def Equals_def context_without_registration_def
      default_scopes_def)

section \<open>Batch writes\<close>

lemma validate_statements_None:
  "validate_statements v c i ss = None \<longleftrightarrow> (\<forall>s \<in> set ss. ValidateWrite v c s = None)"
  by (induction ss arbitrary: i) (auto split: option.splits)

text \<open>
  The loop returns \<open>(k, e)\<close> exactly when \<open>k\<close> is the position (counted from the start
  index \<open>i\<close>) of the first statement that is denied, and \<open>e\<close> is its error.
\<close>

lemma validate_statements_Some:
  "validate_statements v c i ss = Some (k, e) \<longleftrightarrow>
     (i \<le> k \<and> k - i < length ss \<and> ValidateWrite v c (ss ! (k - i)) = Some e
      \<and> (\<forall>j < k - i. ValidateWrite v c (ss ! j) = None))"
proof (induction ss arbitrary: i)
  case Nil
  then show ?case by simp
next
  case (Cons s ss)
  show ?case
  proof (cases "ValidateWrite v c s")
    case None
    have "(Suc i \<le> k \<and> k - Suc i < length ss
             \<and> ValidateWrite v c (ss ! (k - Suc i)) = Some e
             \<and> (\<forall>j < k - Suc i. ValidateWrite v c (ss ! j) = None))
          \<longleftrightarrow> (i \<le> k \<and> k - i < length (s # ss)
             \<and> ValidateWrite v c ((s # ss) ! (k - i)) = Some e
             \<and> (\<forall>j < k - i. ValidateWrite v c ((s # ss) ! j) = None))" (is "?L \<longleftrightarrow> ?R")
    proof
      assume L: ?L
      then have eq: "k - i = Suc (k - Suc i)" by arith
      have "\<forall>j < Suc (k - Suc i). ValidateWrite v c ((s # ss) ! j) = None"
        using L None by (auto simp: nth_Cons split: nat.splits)
      with L eq show ?R by auto
    next
      assume R: ?R
      have "k - i \<noteq> 0" using R None by (auto intro: ccontr)
      then have eq: "k - i = Suc (k - Suc i)" by arith
      have "\<forall>j < k - Suc i. ValidateWrite v c (ss ! j) = None"
      proof (intro allI impI)
        fix j assume "j < k - Suc i"
        then have "Suc j < k - i" using eq by arith
        with R have "ValidateWrite v c ((s # ss) ! Suc j) = None" by blast
        then show "ValidateWrite v c (ss ! j) = None" by simp
      qed
      with R eq show ?L by auto
    qed
    with None Cons.IH [of "Suc i"] show ?thesis by simp
  next
    case (Some err)
    then show ?thesis by (auto simp: nth_Cons split: nat.splits)
  qed
qed

text \<open>Whatever the request, \<open>forwardToLRS\<close> is reached only with the body that was read,
  decoded and admitted statement by statement.\<close>

lemma proxyStatementsWrite_forwards_only_admitted:
  "proxyStatementsWrite ul uo tenant claims v read_body = ForwardToLRS b \<longleftrightarrow>
     (\<exists>body statements. read_body = Some body \<and> b = Some body
        \<and> parse_statements ul uo body = Some statements
        \<and> (\<forall>s \<in> set statements. ValidateWrite v claims s = None))"
proof (cases read_body)
  case None
  then show ?thesis by (simp add: proxyStatementsWrite_def)
next
  case body: (Some body)
  show ?thesis
  proof (cases "parse_statements ul uo body")
    case None
    with body show ?thesis by (simp add: proxyStatementsWrite_def)
  next
    case parsed: (Some statements)
    show ?thesis
    proof (cases "validate_statements v claims 0 statements")
      case None
      then have "\<forall>s \<in> set statements. ValidateWrite v claims s = None"
        using validate_statements_None [of v claims 0 statements] by simp
      with None body parsed show ?thesis
        by (auto simp: proxyStatementsWrite_def)
    next
      case (Some p)
      then have "\<not> (\<forall>s \<in> set statements. ValidateWrite v claims s = None)"
        using validate_statements_None [of v claims 0 statements] by simp
      with Some body parsed show ?thesis
        by (auto simp: proxyStatementsWrite_def split: prod.splits)
    qed
  qed
qed

text \<open>
  C2. For every batch of statements submitted as a write (a body that was read and that
  \<open>json.Unmarshal\<close> decodes into the list \<open>statements\<close>, or that does not decode as a
  list and decodes as the one statement the list consists of), the statements are
  evaluated in the order received: the body is forwarded exactly when every statement
  admits; a statement that is denied while all the statements before it admit makes the
  response HTTP 403 with its zero-based index and its reason, and when any statement is
  denied there is such a first one, so the response is that 403 and nothing is forwarded.
\<close>

theorem proxyStatementsWrite_batch:
  assumes "read_body = Some body"
    and "ul body = Some statements
         \<or> (ul body = None \<and> (\<exists>stmt. uo body = Some stmt \<and> statements = [stmt]))"
  shows "((proxyStatementsWrite ul uo tenant claims v read_body = ForwardToLRS (Some body))
            \<longleftrightarrow> (\<forall>s \<in> set statements. ValidateWrite v claims s = None))
         \<and> (\<forall>i err. i < length statements
               \<and> ValidateWrite v claims (statements ! i) = Some err
               \<and> (\<forall>j < i. ValidateWrite v claims (statements ! j) = None)
               \<longrightarrow> proxyStatementsWrite ul uo tenant claims v read_body
                     = HttpError 403 (StatementErrorText i err))
         \<and> ((\<exists>s \<in> set statements. ValidateWrite v claims s \<noteq> None) \<longrightarrow>
              (\<exists>i err. i < length statements
                 \<and> ValidateWrite v claims (statements ! i) = Some err
                 \<and> (\<forall>j < i. ValidateWrite v claims (statements ! j) = None)
                 \<and> proxyStatementsWrite ul uo tenant claims v read_body
                     = HttpError 403 (StatementErrorText i err)
                 \<and> (\<forall>b. proxyStatementsWrite ul uo tenant claims v read_body
                          \<noteq> ForwardToLRS b)))"
proof -
  have parsed: "parse_statements ul uo body = Some statements"
    using assms(2) by (auto simp: parse_statements_def)
  have out: "proxyStatementsWrite ul uo tenant claims v read_body
               = (case validate_statements v claims 0 statements of
                    Some (i, err) \<Rightarrow> HttpError 403 (StatementErrorText i err)
                  | None \<Rightarrow> ForwardToLRS (Some body))"
    using assms(1) parsed by (simp add: proxyStatementsWrite_def)
  show ?thesis
  proof (intro conjI allI impI)
    show "(proxyStatementsWrite ul uo tenant claims v read_body = ForwardToLRS (Some body))
            \<longleftrightarrow> (\<forall>s \<in> set statements. ValidateWrite v claims s = None)"
      using assms(1) parsed
        proxyStatementsWrite_forwards_only_admitted
          [of ul uo tenant claims v read_body "Some body"]
      by simp
  next
    fix i err
    assume "i < length statements \<and> ValidateWrite v claims (statements ! i) = Some err
            \<and> (\<forall>j < i. ValidateWrite v claims (statements ! j) = None)"
    then have "validate_statements v claims 0 statements = Some (i, err)"
      by (simp add: validate_statements_Some)
    then show "proxyStatementsWrite ul uo tenant claims v read_body
               = HttpError 403 (StatementErrorText i err)"
      using out by simp
  next
    assume "\<exists>s \<in> set statements. ValidateWrite v claims s \<noteq> None"
    then have "validate_statements v claims 0 statements \<noteq> None"
      by (simp add: validate_statements_None)
    then obtain i err where r: "validate_statements v claims 0 statements = Some (i, err)"
      by auto
    then have first: "i < length statements"
        "ValidateWrite v claims (statements ! i) = Some err"
        "\<forall>j < i. ValidateWrite v claims (statements ! j) = None"
      by (simp_all add: validate_statements_Some)
    have denied: "proxyStatementsWrite ul uo tenant claims v read_body
               = HttpError 403 (StatementErrorText i err)"
      using out r by simp
    from first denied
    show "\<exists>i err. i < length statements
            \<and> ValidateWrite v claims (statements ! i) = Some err
            \<and> (\<forall>j < i. ValidateWrite v claims (statements ! j) = None)
            \<and> proxyStatementsWrite ul uo tenant claims v read_body
                = HttpError 403 (StatementErrorText i err)
            \<and> (\<forall>b. proxyStatementsWrite ul uo tenant claims v read_body \<noteq> ForwardToLRS b)"
      by auto
  qed
qed

text \<open>
  Scenarios S1 and S8 of the specification, and scenario S2 sent as a single statement
  instead of an array, through the theorem.
\<close>

theorem proxyStatementsWrite_batch_witness:
  "proxyStatementsWrite unmarshal_list_example unmarshal_one_example tenant_A claims_S1
     (NewPermissionValidator ''strict'') (Some ''S1'') = ForwardToLRS (Some ''S1'')
   \<and> proxyStatementsWrite unmarshal_list_example unmarshal_one_example tenant_A claims_S1
       (NewPermissionValidator ''strict'') (Some ''S8'')
     = HttpError 403 (StatementErrorText 1
         (ActivityMismatch ''write'' ''https://ex/a'' ''https://ex/other''))
   \<and> proxyStatementsWrite unmarshal_list_example unmarshal_one_example tenant_A claims_S1
       (NewPermissionValidator ''strict'') (Some ''S2'')
     = HttpError 403 (StatementErrorText 0 (ActorMismatch ''write'' learner_a learner_b))"
proof -
  let ?v = "NewPermissionValidator ''strict''"
  have ok: "ValidateWrite ?v claims_S1 statement_S1 = None"
    by (simp add: ValidateWrite_def validateActorActivityRegistration_def claims_S1_def
        statement_S1_def learner_a_def Equals_def default_scopes_def)
  have bad: "ValidateWrite ?v claims_S1 statement_other_activity
             = Some (ActivityMismatch ''write'' ''https://ex/a'' ''https://ex/other'')"
    by (simp add: ValidateWrite_def validateActorActivityRegistration_def claims_S1_def
        statement_other_activity_def statement_S1_def learner_a_def Equals_def
        default_scopes_def)
  have other: "ValidateWrite ?v claims_S1 statement_other_actor
             = Some (ActorMismatch ''write'' learner_a learner_b)"
    by (simp add: ValidateWrite_def validateActorActivityRegistration_def claims_S1_def
        statement_other_actor_def statement_S1_def learner_a_def learner_b_def Equals_def
        default_scopes_def)
  have d1: "unmarshal_list_example ''S1'' = Some [statement_S1]
            \<or> (unmarshal_list_example ''S1'' = None
                \<and> (\<exists>stmt. unmarshal_one_example ''S1'' = Some stmt \<and> [statement_S1] = [stmt]))"
    by (simp add: unmarshal_list_example_def)
  have d8: "unmarshal_list_example ''S8''
              = Some [statement_S1, statement_other_activity, statement_S1]
            \<or> (unmarshal_list_example ''S8'' = None
                \<and> (\<exists>stmt. unmarshal_one_example ''S8'' = Some stmt
                      \<and> [statement_S1, statement_other_activity, statement_S1] = [stmt]))"
    by (simp add: unmarshal_list_example_def)
  have d2: "unmarshal_list_example ''S2'' = Some [statement_other_actor]
            \<or> (unmarshal_list_example ''S2'' = None
                \<and> (\<exists>stmt. unmarshal_one_example ''S2'' = Some stmt
                      \<and> [statement_other_actor] = [stmt]))"
    by (simp add: unmarshal_list_example_def unmarshal_one_example_def)
  note b1 = proxyStatementsWrite_batch
    [where ul = unmarshal_list_example and uo = unmarshal_one_example
       and read_body = "Some ''S1''" and body = "''S1''" and statements = "[statement_S1]"
       and tenant = tenant_A and claims = claims_S1
       and v = "NewPermissionValidator ''strict''", OF refl d1]
  note b8 = proxyStatementsWrite_batch
    [where ul = unmarshal_list_example and uo = unmarshal_one_example
       and read_body = "Some ''S8''" and body = "''S8''"
       and statements = "[statement_S1, statement_other_activity, statement_S1]"
       and tenant = tenant_A and claims = claims_S1
       and v = "NewPermissionValidator ''strict''", OF refl d8]
  note b2 = proxyStatementsWrite_batch
    [where ul = unmarshal_list_example and uo = unmarshal_one_example
       and read_body = "Some ''S2''" and body = "''S2''"
       and statements = "[statement_other_actor]"
       and tenant = tenant_A and claims = claims_S1
       and v = "NewPermissionValidator ''strict''", OF refl d2]
  show ?thesis
    using b1 b8 b2 ok bad other by simp
qed

section \<open>Scopes without a branch\<close>

text \<open>
  C3, as the code has it. For claims whose read scope has no branch in \<open>ValidateRead\<close>,
  \<open>ValidateRead\<close> admits every query if and only if the validator's policy is
  \<open>permissive\<close>, and denies otherwise. For claims whose write scope has no branch in
  \<open>ValidateWrite\<close>, \<open>ValidateWrite\<close> denies every statement with "unsupported write
  permission scope", whatever the policy: the policy is consulted on reads only.
\<close>

theorem unknown_scope_read_follows_policy_write_denies:
  "(permissions_Read (claims_Permissions C) \<notin> set read_branches \<longrightarrow>
      ((ValidateRead v C q = None) \<longleftrightarrow> policy v = ''permissive'')
      \<and> (policy v \<noteq> ''permissive'' \<longrightarrow>
            ValidateRead v C q
              = Some (UnsupportedReadScope (permissions_Read (claims_Permissions C)))))
   \<and> (permissions_Write (claims_Permissions C) \<notin> set write_branches \<longrightarrow>
        ValidateWrite v C s
          = Some (UnsupportedWriteScope (permissions_Write (claims_Permissions C))))"
  by (simp add: ValidateRead_def ValidateWrite_def read_branches_def write_branches_def)

theorem unknown_scope_read_follows_policy_write_denies_witness:
  "ValidateRead (NewPermissionValidator ''permissive'')
     (claims_S1\<lparr>claims_Permissions :=
        \<lparr>permissions_Write = ''course-peer-shared'',
         permissions_Read = ''course-aggregate-only''\<rparr>\<rparr>) Map.empty = None
   \<and> ValidateRead (NewPermissionValidator ''strict'')
     (claims_S1\<lparr>claims_Permissions :=
        \<lparr>permissions_Write = ''course-peer-shared'',
         permissions_Read = ''course-aggregate-only''\<rparr>\<rparr>) Map.empty
       = Some (UnsupportedReadScope ''course-aggregate-only'')
   \<and> ValidateWrite (NewPermissionValidator ''strict'')
     (claims_S1\<lparr>claims_Permissions :=
        \<lparr>permissions_Write = ''course-peer-shared'',
         permissions_Read = ''course-aggregate-only''\<rparr>\<rparr>) statement_S1
       = Some (UnsupportedWriteScope ''course-peer-shared'')"
  using unknown_scope_read_follows_policy_write_denies
      [of "claims_S1\<lparr>claims_Permissions :=
             \<lparr>permissions_Write = ''course-peer-shared'',
              permissions_Read = ''course-aggregate-only''\<rparr>\<rparr>"
          "NewPermissionValidator ''permissive''" Map.empty statement_S1]
    unknown_scope_read_follows_policy_write_denies
      [of "claims_S1\<lparr>claims_Permissions :=
             \<lparr>permissions_Write = ''course-peer-shared'',
              permissions_Read = ''course-aggregate-only''\<rparr>\<rparr>"
          "NewPermissionValidator ''strict''" Map.empty statement_S1]
  by (simp add: read_branches_def write_branches_def NewPermissionValidator_def)

text \<open>
  The claim as written has \<open>ValidateWrite\<close> admit under a permissive policy. With the
  write scope \<open>course-aggregate-only\<close>, which the issuer accepts, and the policy
  \<open>permissive\<close>, the statement of scenario S1 is denied.
\<close>

theorem ValidateWrite_unknown_scope_denied_when_permissive:
  "permissions_Write (claims_Permissions
      (claims_S1\<lparr>claims_Permissions :=
         \<lparr>permissions_Write = ''course-aggregate-only'',
          permissions_Read = ''course-aggregate-only''\<rparr>\<rparr>)) \<notin> set write_branches
   \<and> policy (NewPermissionValidator ''permissive'') = ''permissive''
   \<and> ValidateWrite (NewPermissionValidator ''permissive'')
        (claims_S1\<lparr>claims_Permissions :=
           \<lparr>permissions_Write = ''course-aggregate-only'',
            permissions_Read = ''course-aggregate-only''\<rparr>\<rparr>) statement_S1
       = Some (UnsupportedWriteScope ''course-aggregate-only'')"
  by (simp add: ValidateWrite_def write_branches_def NewPermissionValidator_def)

section \<open>Group scope with no group in the token\<close>

text \<open>
  On writes the group scope fails closed: with no group in the claims every statement is
  denied.
\<close>

lemma ValidateWrite_group_null_denies:
  assumes "permissions_Write (claims_Permissions C) = ''group-activity-registration-scoped''"
    and "claims_Group C = None"
  shows "ValidateWrite v C s \<noteq> None"
  using assms by (simp add: ValidateWrite_def validateGroupActivityRegistration_def)

text \<open>
  C4. With \<open>group = null\<close> and the group scope, the evaluator is to deny every statement
  and every query. \<open>ValidateRead\<close> does not: the claims of scenario S1 with the read scope
  \<open>group-activity-registration-scoped\<close> and no group admit the query without parameters
  (and any query whose activity and registration match).
\<close>

theorem ValidateRead_group_null_admits:
  "claims_Group (claims_S1\<lparr>claims_Permissions :=
        \<lparr>permissions_Write = ''group-activity-registration-scoped'',
         permissions_Read = ''group-activity-registration-scoped''\<rparr>\<rparr>) = None
   \<and> ValidateRead (NewPermissionValidator ''strict'')
        (claims_S1\<lparr>claims_Permissions :=
           \<lparr>permissions_Write = ''group-activity-registration-scoped'',
            permissions_Read = ''group-activity-registration-scoped''\<rparr>\<rparr>) Map.empty = None
   \<and> ValidateRead (NewPermissionValidator ''strict'')
        (claims_S1\<lparr>claims_Permissions :=
           \<lparr>permissions_Write = ''group-activity-registration-scoped'',
            permissions_Read = ''group-activity-registration-scoped''\<rparr>\<rparr>)
        [''activity'' \<mapsto> ''https://ex/a'', ''registration'' \<mapsto> ''R1''] = None"
  by (simp add: ValidateRead_def validateGroupActivityRegistrationRead_def index_def
      claims_S1_def)

section \<open>Agent profile\<close>

text \<open>
  The handler reads \<open>claims\<close> and \<open>agent\<close> and discards them: its outcome does not
  depend on either.
\<close>

lemma ProxyAgentProfile_ignores_agent:
  "ProxyAgentProfile tenant claims method agent read_body
     = ProxyAgentProfile tenant claims' method agent' read_body"
  by (simp add: ProxyAgentProfile_def)

text \<open>
  The sibling handler \<open>ProxyState\<close> does apply the evaluator before forwarding: a request
  that \<open>ValidateStateAccess\<close> denies is answered 403.
\<close>

lemma ProxyState_denied_not_forwarded:
  assumes "ValidateStateAccess (NewPermissionValidator (tenant_PermissionPolicy tenant))
             claims activityID agent registration = Some err"
  shows "ProxyState tenant claims method activityID agent registration read_body
           = HttpError 403 (ErrorText err)"
  using assms by (simp add: ProxyState_def)

text \<open>A request whose method the route is not registered with never reaches the handler.\<close>

lemma agents_profile_route_unregistered_method:
  "method \<notin> set agents_profile_methods \<Longrightarrow>
     agents_profile_route GetByHost P host auth method agent read_body = NoRoute"
  by (simp add: agents_profile_route_def)

text \<open>
  C5. A request to \<open>/xapi/agents/profile\<close> is to be forwarded only if its \<open>agent\<close>
  parameter identifies the actor of the token. The handler forwards without looking: once
  the tenant is resolved and the token is verified, a GET or DELETE is forwarded whatever
  its agent is, and a POST or PUT is forwarded with the body that was read. So a GET with
  the verified token of the learner with mbox \<open>mailto:a@x\<close> and openid
  \<open>https://id.ex/a\<close> and the agent \<open>mailto:b@x\<close>, which contains neither, reaches
  \<open>forwardToLRS\<close>, where the state endpoint answers the same agent under the same token
  with 403.
\<close>

theorem agents_profile_forwards_any_agent:
  assumes "GetByHost host = Some tenant"
    and "JWTAuthMiddleware P tenant auth = Next claims"
  shows "(method = ''GET'' \<or> method = ''DELETE'' \<longrightarrow>
            agents_profile_route GetByHost P host auth method agent read_body
              = ForwardToLRS None)
         \<and> (\<forall>body. (method = ''POST'' \<or> method = ''PUT'') \<and> read_body = Some body \<longrightarrow>
               agents_profile_route GetByHost P host auth method agent read_body
                 = ForwardToLRS (Some body))"
  using assms
  by (auto simp: agents_profile_route_def agents_profile_methods_def TenantMiddleware_def
      ProxyAgentProfile_def)

theorem agents_profile_forwards_other_agent:
  "JWTAuthMiddleware parse_S1 tenant_A ''Bearer tok2'' = Next claims_openid
   \<and> actor_Mbox (claims_Actor claims_openid) = ''mailto:a@x''
   \<and> actor_OpenID (claims_Actor claims_openid) = ''https://id.ex/a''
   \<and> \<not> Contains ''mailto:b@x'' (actor_Mbox (claims_Actor claims_openid))
   \<and> \<not> Contains ''mailto:b@x'' (actor_OpenID (claims_Actor claims_openid))
   \<and> ProxyState tenant_A claims_openid ''GET'' ''https://ex/a'' ''mailto:b@x'' ''R1'' None
       = HttpError 403 (ErrorText StateAgentMismatch)
   \<and> agents_profile_route store_A parse_S1 ''proxy.example'' ''Bearer tok2'' ''GET''
         ''mailto:b@x'' None
       = ForwardToLRS None"
proof -
  have actor: "claims_Actor claims_openid
                 = \<lparr>actor_ObjectType = ''Agent'', actor_Name = '''',
                    actor_Mbox = ''mailto:a@x'', actor_MboxSHA1 = '''',
                    actor_OpenID = ''https://id.ex/a'', actor_Account = None\<rparr>"
    by (simp add: claims_openid_def learner_a_openid_def learner_a_def)
  have tenant: "store_A ''proxy.example'' = Some tenant_A"
    by (simp add: store_A_def)
  have verified: "JWTAuthMiddleware parse_S1 tenant_A ''Bearer tok2'' = Next claims_openid"
    by (simp add: JWTAuthMiddleware_def SplitN_def parse_S1_def tenant_A_def
        claims_openid_def claims_S1_def)
  have no_mbox: "\<not> Contains ''mailto:b@x'' (actor_Mbox (claims_Actor claims_openid))"
    and no_openid: "\<not> Contains ''mailto:b@x'' (actor_OpenID (claims_Actor claims_openid))"
    by (simp_all add: actor)
  have state: "ProxyState tenant_A claims_openid ''GET'' ''https://ex/a'' ''mailto:b@x''
                 ''R1'' None = HttpError 403 (ErrorText StateAgentMismatch)"
    using no_mbox no_openid by (simp add: ProxyState_def ValidateStateAccess_def)
  show ?thesis
    using verified no_mbox no_openid state actor
      agents_profile_forwards_any_agent
        [of store_A "''proxy.example''" tenant_A parse_S1 "''Bearer tok2''" claims_openid
           "''GET''" "''mailto:b@x''" None, OF tenant verified]
    by simp
qed

section \<open>Token issuance\<close>

text \<open>
  The lifetime is multiplied in \<open>int64\<close>: 3600 seconds are 3600000000000 nanoseconds,
  and a configured lifetime of 9223372037 seconds wraps around to a negative duration, so
  that the token expires before it is issued.
\<close>

lemma IssueToken_expiry_wraps:
  "IssueToken sign_ok 0 0 (tenant_A\<lparr>tenant_JWTTTLSeconds := 9223372037\<rparr>) (Some request_S1)
     = TokenIssued ''tok'' (- 9223372036709551616)"
  by (simp add: IssueToken_def ValidatePermission_def validScopes_def sign_ok_def
      request_S1_def default_scopes_def Add_def Second_def)

text \<open>
  C6, as the code has it. Token issuance answers HTTP 400 exactly when the request body
  does not decode or when the write scope or the read scope is not in the valid scope
  set. Nothing else of the request is examined: when signing does not fail, every decoded
  request with two valid scopes is minted a token, whose expiry is the clock reading
  advanced by the tenant's lifetime (seconds times \<open>time.Second\<close>, in wrapping \<open>int64\<close>
  nanoseconds), whatever its actor, registration, activity id and group are.
\<close>

theorem IssueToken_rejects_only_undecodable_or_invalid_scope:
  "((\<exists>m. IssueToken SignedString now1 now2 tenant decoded = HttpError 400 m) \<longleftrightarrow>
      (decoded = None
       \<or> (\<exists>req. decoded = Some req
             \<and> (permissions_Write (request_Permissions req) \<notin> set validScopes
                \<or> permissions_Read (request_Permissions req) \<notin> set validScopes))))
   \<and> (\<forall>req. decoded = Some req
          \<and> permissions_Write (request_Permissions req) \<in> set validScopes
          \<and> permissions_Read (request_Permissions req) \<in> set validScopes
          \<and> (\<forall>secret claims. SignedString secret claims \<noteq> None)
        \<longrightarrow> (\<exists>tokenString. IssueToken SignedString now1 now2 tenant decoded
                  = TokenIssued tokenString
                      (Add now1 (tenant_JWTTTLSeconds tenant * Second))))"
proof (intro conjI allI impI)
  show "(\<exists>m. IssueToken SignedString now1 now2 tenant decoded = HttpError 400 m) \<longleftrightarrow>
      (decoded = None
       \<or> (\<exists>req. decoded = Some req
             \<and> (permissions_Write (request_Permissions req) \<notin> set validScopes
                \<or> permissions_Read (request_Permissions req) \<notin> set validScopes)))"
    by (auto simp: IssueToken_def ValidatePermission_def Let_def split: option.splits)
next
  fix req
  assume a: "decoded = Some req
          \<and> permissions_Write (request_Permissions req) \<in> set validScopes
          \<and> permissions_Read (request_Permissions req) \<in> set validScopes
          \<and> (\<forall>secret claims. SignedString secret claims \<noteq> None)"
  then show "\<exists>tokenString. IssueToken SignedString now1 now2 tenant decoded
                  = TokenIssued tokenString (Add now1 (tenant_JWTTTLSeconds tenant * Second))"
    by (auto simp: IssueToken_def ValidatePermission_def Let_def split: option.splits)
qed

theorem IssueToken_rejects_only_undecodable_or_invalid_scope_witness:
  "(\<exists>m. IssueToken sign_ok 0 0 tenant_A None = HttpError 400 m)
   \<and> (\<exists>m. IssueToken sign_ok 0 0 tenant_A
             (Some (request_S1\<lparr>request_Permissions :=
                \<lparr>permissions_Write = ''everything'', permissions_Read = ''false''\<rparr>\<rparr>))
           = HttpError 400 m)
   \<and> (\<exists>tokenString. IssueToken sign_ok 0 0 tenant_A (Some request_S1)
         = TokenIssued tokenString 3600000000000)"
  using IssueToken_rejects_only_undecodable_or_invalid_scope [of sign_ok 0 0 tenant_A None]
    IssueToken_rejects_only_undecodable_or_invalid_scope [of sign_ok 0 0 tenant_A
      "Some (request_S1\<lparr>request_Permissions :=
                \<lparr>permissions_Write = ''everything'', permissions_Read = ''false''\<rparr>\<rparr>)"]
    IssueToken_rejects_only_undecodable_or_invalid_scope [of sign_ok 0 0 tenant_A
      "Some request_S1"]
  by (simp add: validScopes_def request_S1_def default_scopes_def sign_ok_def
      Add_def Second_def tenant_A_def)

text \<open>
  The claim as written rejects a request with an empty actor, registration or activity
  id, or with a group that is not a \<open>Group\<close> or has no member. The blank request has all
  of these at once and is minted a token.
\<close>

theorem IssueToken_mints_for_blank_request:
  "actor_Mbox (request_Actor request_blank) = ''''
   \<and> request_Actor request_blank = nobody
   \<and> request_Registration request_blank = ''''
   \<and> request_ActivityID request_blank = ''''
   \<and> request_Group request_blank
       = Some \<lparr>group_ObjectType = '''', group_Name = '''', group_Member = []\<rparr>
   \<and> IssueToken sign_ok 0 0 tenant_A (Some request_blank)
       = TokenIssued ''tok'' 3600000000000"
  by (simp add: IssueToken_def ValidatePermission_def validScopes_def request_blank_def
      default_scopes_def sign_ok_def tenant_A_def nobody_def Add_def Second_def)

text \<open>
  C7, as the code has it. \<open>ValidatePermission\<close> makes no difference between write and
  read: the scopes \<open>actor-course-registration-scoped\<close>,
  \<open>actor-activity-all-registrations\<close> and \<open>actor-cross-course-certification\<close> are valid
  as a write scope, and a request asking for one of them as its write scope (with a valid
  read scope, and signing not failing) is minted a token. Such a token is refused later:
  \<open>ValidateWrite\<close> denies every statement under it as an unsupported write scope.
\<close>

theorem read_only_write_scope_issued_then_denied:
  assumes "w \<in> {''actor-course-registration-scoped'', ''actor-activity-all-registrations'',
                 ''actor-cross-course-certification''}"
  shows "ValidatePermission w = None
         \<and> (permissions_Write (request_Permissions req) = w
              \<and> permissions_Read (request_Permissions req) \<in> set validScopes
              \<and> (\<forall>secret claims. SignedString secret claims \<noteq> None)
            \<longrightarrow> (\<exists>tokenString. IssueToken SignedString now1 now2 tenant (Some req)
                     = TokenIssued tokenString
                         (Add now1 (tenant_JWTTTLSeconds tenant * Second))))
         \<and> (permissions_Write (claims_Permissions C) = w
            \<longrightarrow> ValidateWrite v C s = Some (UnsupportedWriteScope w))"
proof (intro conjI impI)
  show valid: "ValidatePermission w = None"
    using assms by (auto simp: ValidatePermission_def validScopes_def)
  show "ValidateWrite v C s = Some (UnsupportedWriteScope w)"
    if "permissions_Write (claims_Permissions C) = w"
    using assms that by (auto simp: ValidateWrite_def)
  show "\<exists>tokenString. IssueToken SignedString now1 now2 tenant (Some req)
          = TokenIssued tokenString (Add now1 (tenant_JWTTTLSeconds tenant * Second))"
    if a: "permissions_Write (request_Permissions req) = w
         \<and> permissions_Read (request_Permissions req) \<in> set validScopes
         \<and> (\<forall>secret claims. SignedString secret claims \<noteq> None)"
  proof -
    from a have r: "ValidatePermission (permissions_Read (request_Permissions req)) = None"
      by (simp add: ValidatePermission_def)
    from a valid have w: "ValidatePermission (permissions_Write (request_Permissions req)) = None"
      by simp
    from a r w show ?thesis
      by (auto simp: IssueToken_def Let_def split: option.splits)
  qed
qed

theorem read_only_write_scope_issued_then_denied_witness:
  "ValidatePermission ''actor-activity-all-registrations'' = None
   \<and> (\<exists>tokenString. IssueToken sign_ok 0 0 tenant_A
          (Some (request_S1\<lparr>request_Permissions :=
             \<lparr>permissions_Write = ''actor-activity-all-registrations'',
              permissions_Read = ''false''\<rparr>\<rparr>))
        = TokenIssued tokenString 3600000000000)
   \<and> ValidateWrite (NewPermissionValidator ''strict'')
        (claims_S1\<lparr>claims_Permissions :=
           \<lparr>permissions_Write = ''actor-activity-all-registrations'',
            permissions_Read = ''false''\<rparr>\<rparr>) statement_S1
       = Some (UnsupportedWriteScope ''actor-activity-all-registrations'')"
  using read_only_write_scope_issued_then_denied
      [of "''actor-activity-all-registrations''"
          "request_S1\<lparr>request_Permissions :=
             \<lparr>permissions_Write = ''actor-activity-all-registrations'',
              permissions_Read = ''false''\<rparr>\<rparr>"
          sign_ok 0 0 tenant_A
          "claims_S1\<lparr>claims_Permissions :=
             \<lparr>permissions_Write = ''actor-activity-all-registrations'',
              permissions_Read = ''false''\<rparr>\<rparr>"
          "NewPermissionValidator ''strict''" statement_S1]
  by (simp add: validScopes_def sign_ok_def Add_def Second_def tenant_A_def)

text \<open>
  The claim as written has issuance reject a read-only scope asked for as the write
  scope. The request of scenario S1 with the write scope
  \<open>actor-course-registration-scoped\<close> is minted a token.
\<close>

theorem IssueToken_mints_read_only_write_scope:
  "permissions_Write (request_Permissions
      (request_S1\<lparr>request_Permissions :=
         \<lparr>permissions_Write = ''actor-course-registration-scoped'',
          permissions_Read = ''actor-course-registration-scoped''\<rparr>\<rparr>))
     = ''actor-course-registration-scoped''
   \<and> IssueToken sign_ok 0 0 tenant_A
       (Some (request_S1\<lparr>request_Permissions :=
          \<lparr>permissions_Write = ''actor-course-registration-scoped'',
           permissions_Read = ''actor-course-registration-scoped''\<rparr>\<rparr>))
     = TokenIssued ''tok'' 3600000000000"
  by (simp add: IssueToken_def ValidatePermission_def validScopes_def sign_ok_def
      tenant_A_def Add_def Second_def)

section \<open>Token verification failures\<close>

text \<open>
  C8, as the code has it. Every failure of \<open>JWTAuthMiddleware\<close> is answered HTTP 401,
  with one of three texts. A missing \<open>Authorization\<close> header gives "Authorization
  required"; a header that is not \<open>Bearer\<close>, one space, and a token gives "Invalid
  authorization format"; a token that the JWT library refuses (malformed, wrong algorithm,
  bad signature, expired, malformed claims) or returns as not valid, and a token of
  another tenant, give the same "Invalid token". Only a valid token of the resolved tenant
  is passed on.
\<close>

theorem JWTAuthMiddleware_failure_responses:
  "(\<forall>code msg. JWTAuthMiddleware P tenant auth = Reject code msg \<longrightarrow>
       code = 401
       \<and> (msg = ''Authorization required'' \<or> msg = ''Invalid authorization format''
          \<or> msg = ''Invalid token''))
   \<and> (auth = '''' \<longrightarrow>
         JWTAuthMiddleware P tenant auth = Reject 401 ''Authorization required'')
   \<and> (auth \<noteq> '''' \<and> (\<forall>tokenString. SplitN auth \<noteq> [''Bearer'', tokenString]) \<longrightarrow>
         JWTAuthMiddleware P tenant auth = Reject 401 ''Invalid authorization format'')
   \<and> (\<forall>tokenString. SplitN auth = [''Bearer'', tokenString] \<longrightarrow>
         (P tokenString (tenant_JWTSecret tenant) = ParseFailed \<longrightarrow>
            JWTAuthMiddleware P tenant auth = Reject 401 ''Invalid token'')
         \<and> (\<forall>claims. P tokenString (tenant_JWTSecret tenant) = Token False claims \<longrightarrow>
               JWTAuthMiddleware P tenant auth = Reject 401 ''Invalid token'')
         \<and> (\<forall>claims. P tokenString (tenant_JWTSecret tenant) = Token True claims \<longrightarrow>
               JWTAuthMiddleware P tenant auth
                 = (if claims_TenantID claims \<noteq> tenant_TenantID tenant
                    then Reject 401 ''Invalid token'' else Next claims)))"
proof (intro conjI allI impI)
  fix code msg
  assume "JWTAuthMiddleware P tenant auth = Reject code msg"
  then show "code = 401" and "msg = ''Authorization required''
      \<or> msg = ''Invalid authorization format'' \<or> msg = ''Invalid token''"
    by (auto simp: JWTAuthMiddleware_def Let_def split: if_splits parse_result.splits)
next
  assume "auth = ''''"
  then show "JWTAuthMiddleware P tenant auth = Reject 401 ''Authorization required''"
    by (simp add: JWTAuthMiddleware_def)
next
  assume a: "auth \<noteq> '''' \<and> (\<forall>tokenString. SplitN auth \<noteq> [''Bearer'', tokenString])"
  have "length (SplitN auth) \<noteq> 2 \<or> SplitN auth ! 0 \<noteq> ''Bearer''"
  proof (rule ccontr)
    assume "\<not> (length (SplitN auth) \<noteq> 2 \<or> SplitN auth ! 0 \<noteq> ''Bearer'')"
    then have "length (SplitN auth) = 2" and "SplitN auth ! 0 = ''Bearer''" by simp_all
    then have "SplitN auth = [''Bearer'', SplitN auth ! 1]"
      by (cases "SplitN auth"; cases "tl (SplitN auth)") auto
    with a show False by blast
  qed
  with a show "JWTAuthMiddleware P tenant auth = Reject 401 ''Invalid authorization format''"
    by (auto simp: JWTAuthMiddleware_def Let_def)
next
  fix tokenString
  assume s: "SplitN auth = [''Bearer'', tokenString]"
  then have ne: "auth \<noteq> ''''" by (auto simp: SplitN_def)
  {
    assume "P tokenString (tenant_JWTSecret tenant) = ParseFailed"
    with s ne show "JWTAuthMiddleware P tenant auth = Reject 401 ''Invalid token''"
      by (simp add: JWTAuthMiddleware_def)
  next
    fix claims
    assume "P tokenString (tenant_JWTSecret tenant) = Token False claims"
    with s ne show "JWTAuthMiddleware P tenant auth = Reject 401 ''Invalid token''"
      by (simp add: JWTAuthMiddleware_def)
  next
    fix claims
    assume "P tokenString (tenant_JWTSecret tenant) = Token True claims"
    with s ne show "JWTAuthMiddleware P tenant auth
                 = (if claims_TenantID claims \<noteq> tenant_TenantID tenant
                    then Reject 401 ''Invalid token'' else Next claims)"
      by (simp add: JWTAuthMiddleware_def)
  }
qed

text \<open>Scenario S7 (a token of tenant A at tenant B) and its neighbours, through the theorem.\<close>

theorem JWTAuthMiddleware_failure_responses_witness:
  "JWTAuthMiddleware parse_S1 (tenant_A\<lparr>tenant_TenantID := ''B''\<rparr>) ''Bearer tok''
     = Reject 401 ''Invalid token''
   \<and> JWTAuthMiddleware parse_S1 tenant_A ''Bearer tok'' = Next claims_S1
   \<and> JWTAuthMiddleware parse_S1 tenant_A ''Bearer forged'' = Reject 401 ''Invalid token''
   \<and> JWTAuthMiddleware parse_S1 tenant_A '''' = Reject 401 ''Authorization required''"
proof -
  have b: "SplitN ''Bearer tok'' = [''Bearer'', ''tok'']"
    and f: "SplitN ''Bearer forged'' = [''Bearer'', ''forged'']"
    by (simp_all add: SplitN_def)
  have tok: "parse_S1 ''tok'' secret = Token True claims_S1"
    and forged: "parse_S1 ''forged'' secret = ParseFailed" for secret
    by (simp_all add: parse_S1_def)
  note other_tenant =
    JWTAuthMiddleware_failure_responses
      [of parse_S1 "tenant_A\<lparr>tenant_TenantID := ''B''\<rparr>" "''Bearer tok''",
        THEN conjunct2, THEN conjunct2, THEN conjunct2, rule_format, OF b,
        THEN conjunct2, THEN conjunct2, rule_format, OF tok]
  note own_tenant =
    JWTAuthMiddleware_failure_responses
      [of parse_S1 tenant_A "''Bearer tok''",
        THEN conjunct2, THEN conjunct2, THEN conjunct2, rule_format, OF b,
        THEN conjunct2, THEN conjunct2, rule_format, OF tok]
  note forged_token =
    JWTAuthMiddleware_failure_responses
      [of parse_S1 tenant_A "''Bearer forged''",
        THEN conjunct2, THEN conjunct2, THEN conjunct2, rule_format, OF f,
        THEN conjunct1, rule_format, OF forged]
  note no_header =
    JWTAuthMiddleware_failure_responses
      [of parse_S1 tenant_A "''''", THEN conjunct2, THEN conjunct1, rule_format, OF refl]
  have "JWTAuthMiddleware parse_S1 (tenant_A\<lparr>tenant_TenantID := ''B''\<rparr>) ''Bearer tok''
          = Reject 401 ''Invalid token''"
    using other_tenant by (simp add: claims_S1_def tenant_A_def)
  moreover have "JWTAuthMiddleware parse_S1 tenant_A ''Bearer tok'' = Next claims_S1"
    using own_tenant by (simp add: claims_S1_def tenant_A_def)
  ultimately show ?thesis
    using forged_token no_header by simp
qed

text \<open>
  The claim as written gives every failure the one text "Invalid token". A request
  without the header, one with a Basic header and one with a forged token get three
  different texts.
\<close>

theorem JWTAuthMiddleware_distinct_failure_texts:
  "JWTAuthMiddleware parse_S1 tenant_A '''' = Reject 401 ''Authorization required''
   \<and> JWTAuthMiddleware parse_S1 tenant_A ''Basic dTpw''
       = Reject 401 ''Invalid authorization format''
   \<and> JWTAuthMiddleware parse_S1 tenant_A ''Bearer forged'' = Reject 401 ''Invalid token''
   \<and> ''Authorization required'' \<noteq> ''Invalid token''
   \<and> ''Invalid authorization format'' \<noteq> ''Invalid token''"
  by (simp add: JWTAuthMiddleware_def SplitN_def parse_S1_def)

section \<open>The agent check with an empty openid\<close>

lemma Contains_empty: "Contains s []"
  by (cases s) simp_all

text \<open>
  C10. For claims whose actor has an empty \<open>openid\<close>, the results of \<open>ValidateRead\<close>
  and of \<open>ValidateStateAccess\<close> do not depend on the agent: two queries that differ in
  the \<open>agent\<close> parameter only (present or not, naming any actor) get the same result, two
  state requests that differ in the agent only get the same result, and neither result is
  ever an agent mismatch, since every string contains the empty string.
\<close>

theorem agent_ignored_when_openid_empty:
  assumes "actor_OpenID (claims_Actor C) = ''''"
  shows "ValidateRead v C (q(''agent'' := a1)) = ValidateRead v C (q(''agent'' := a2))
         \<and> ValidateStateAccess v C activityID agent1 registration
             = ValidateStateAccess v C activityID agent2 registration
         \<and> ValidateRead v C q \<noteq> Some ReadAgentMismatch
         \<and> ValidateStateAccess v C activityID agent1 registration \<noteq> Some StateAgentMismatch"
  using assms
  by (simp add: ValidateRead_def ValidateStateAccess_def
      validateActorActivityRegistrationRead_def validateActorCourseRegistrationRead_def
      validateActorActivityAllRegistrationsRead_def validateGroupActivityRegistrationRead_def
      index_def Let_def Contains_empty)

theorem agent_ignored_when_openid_empty_witness:
  "actor_OpenID (claims_Actor claims_S1) = ''''
   \<and> \<not> Contains ''mailto:b@x'' (actor_Mbox (claims_Actor claims_S1))
   \<and> ValidateRead (NewPermissionValidator ''strict'') claims_S1 [''agent'' \<mapsto> ''mailto:b@x'']
       = None
   \<and> ValidateStateAccess (NewPermissionValidator ''strict'') claims_S1
         ''https://ex/a'' ''mailto:b@x'' ''R1'' = None"
proof -
  let ?v = "NewPermissionValidator ''strict''"
  have h: "actor_OpenID (claims_Actor claims_S1) = ''''"
    by (simp add: claims_S1_def learner_a_def)
  have own_read: "ValidateRead ?v claims_S1 (Map.empty(''agent'' := Some ''mailto:a@x'')) = None"
    by (simp add: ValidateRead_def validateActorActivityRegistrationRead_def index_def
        claims_S1_def learner_a_def default_scopes_def)
  have own_state: "ValidateStateAccess ?v claims_S1 ''https://ex/a'' ''mailto:a@x'' ''R1'' = None"
    by (simp add: ValidateStateAccess_def claims_S1_def learner_a_def default_scopes_def)
  have other: "\<not> Contains ''mailto:b@x'' (actor_Mbox (claims_Actor claims_S1))"
    by (simp add: claims_S1_def learner_a_def)
  show ?thesis
    using h other own_read own_state
      agent_ignored_when_openid_empty [OF h, of ?v Map.empty "Some ''mailto:b@x''"
        "Some ''mailto:a@x''" "''https://ex/a''" "''mailto:b@x''" "''R1''" "''mailto:a@x''"]
    by simp
qed

end
